theory Spec2Isabelle
  imports Complex_Main "HOL-Library.Word"
begin

section \<open>Capture producer: DeckLinkInputDelegate (src/DecklinkInput.cpp)\<close>

text \<open>
  The counters \<^verbatim>\<open>frameCount\<close> and \<^verbatim>\<open>final_frameCount\<close> are \<^verbatim>\<open>unsigned long\<close>, the
  argument of \<^verbatim>\<open>GetFrame\<close> and the number of a \<^verbatim>\<open>Frame\<close> are \<^verbatim>\<open>int64_t\<close>. The code is
  POSIX code (pthread, usleep); on its 64-bit targets both types are 64 bits wide, so
  both are 64-bit words here: \<open>+\<close> and \<open>-\<close> wrap, \<open><\<close> on words is the unsigned order,
  \<open>sint\<close> reads a word as the signed \<^verbatim>\<open>int64_t\<close>.
\<close>

type_synonym ulong = "64 word"
type_synonym int64 = "64 word"

text \<open>
  The frame the capture API hands to the callback (\<^verbatim>\<open>IDeckLinkVideoInputFrame\<close>): the
  flag \<^verbatim>\<open>bmdFrameHasNoInputSource\<close>, the dimensions and the bytes. The copy pushed on
  \<^verbatim>\<open>raw_video_frames\<close> holds the same dimensions and bytes, so the queue holds values of
  the same type.
\<close>

record video_frame =
  no_input_source :: bool
  vf_width :: int
  vf_height :: int
  vf_bytes :: "nat list"

text \<open>\<^verbatim>\<open>openshot::Frame(number, width, height, "#000000", 2048, 2)\<close>: the image is never
  attached (the call of \<^verbatim>\<open>AddImage\<close> is commented out in the source).\<close>

record Frame =
  number :: int64
  width :: int
  height :: int

text \<open>
  Modelled from the spec: the class of \<^verbatim>\<open>final_frames\<close> (the Reorder Cache) and the class
  \<^verbatim>\<open>Frame\<close> are not among the sources. The spec describes the cache as a mapping from frame
  id to Frame with insert, remove and exists, bounded by a configured maximum byte
  budget: the total of the resident bytes never exceeds the budget. A Frame holds the
  pixel buffer of its dimensions, four bytes per pixel as in the budget the constructor
  configures, and the audio placeholder it was created with (2048 samples on 2 channels,
  four bytes each). What an insertion beyond the budget does (reject, block the producer
  or drop the oldest) the spec leaves open, so such an insertion has no result here, and a
  schedule that needs one does not run: what is proved of a schedule is proved for as
  long as the budget suffices. The budget itself, set by \<^verbatim>\<open>SetMaxBytes\<close>, is the field
  \<open>max_bytes\<close> of the delegate below.
\<close>

type_synonym cache = "int64 \<rightharpoonup> Frame"

definition Frame_GetBytes :: "Frame \<Rightarrow> nat" where
  "Frame_GetBytes f = nat (width f) * nat (height f) * 4 + 2048 * 2 * 4"

definition cache_GetBytes :: "cache \<Rightarrow> nat" where
  "cache_GetBytes c = (\<Sum>n \<in> dom c. Frame_GetBytes (the (c n)))"

definition cache_Add :: "nat \<Rightarrow> Frame \<Rightarrow> cache \<Rightarrow> cache option" where
  "cache_Add max_bytes f c =
     (if cache_GetBytes (c(number f \<mapsto> f)) \<le> max_bytes then Some (c(number f \<mapsto> f))
      else None)"

definition cache_Exists :: "int64 \<Rightarrow> cache \<Rightarrow> bool" where
  "cache_Exists n c = (c n \<noteq> None)"

definition cache_GetFrame :: "int64 \<Rightarrow> cache \<Rightarrow> Frame option" where
  "cache_GetFrame n c = c n"

definition cache_Remove :: "int64 \<Rightarrow> cache \<Rightarrow> cache" where
  "cache_Remove n c = c(n := None)"

text \<open>
  A conversion task created by \<^verbatim>\<open>#pragma omp task firstprivate(..., frame, copy_frameCount)\<close>:
  its private copies of the dequeued raw frame and of the counter.
\<close>

record task =
  t_frame :: video_frame
  copy_frameCount :: ulong

text \<open>
  Where the capture thread is: outside the callback, or inside the
  \<^verbatim>\<open>omp single\<close> block of \<^verbatim>\<open>VideoInputFrameArrived\<close>, with the local
  \<^verbatim>\<open>number_to_process\<close> and the callback's argument \<^verbatim>\<open>videoFrame\<close>.
\<close>

datatype producer = Idle | Converting int video_frame

text \<open>
  Where the consumer thread is in \<^verbatim>\<open>GetFrame(requested_frame)\<close>: not in a call, in the
  polling loop, or past the loop and about to enter the critical section.
\<close>

datatype consumer = NotCalling | Polling int64 | Leaving int64

text \<open>What the code prints: the signal-loss line, and the cache-miss line followed by the
  dump of \<^verbatim>\<open>final_frames.Display()\<close>.\<close>

datatype diagnostic = NoInputSignal ulong | CantFind int64 ulong | CacheDisplay

record delegate =
  frameCount :: ulong
  final_frameCount :: ulong
  raw_video_frames :: "video_frame list"
  final_frames :: cache
  max_bytes :: nat
  tasks :: "task list"
  producer :: producer
  consumer :: consumer
  returned :: "(int64 \<times> Frame option) list"
  usleeps :: "nat list"
  printed :: "diagnostic list"

text \<open>The constructor: both counters 0, queue and cache empty, and the budget of
  \<^verbatim>\<open>final_frames.SetMaxBytes(60 * 1920 * 1080 * 4 + (44100 * 2 * 4))\<close>.\<close>

definition DeckLinkInputDelegate :: delegate where
  "DeckLinkInputDelegate =
     \<lparr>frameCount = 0, final_frameCount = 0, raw_video_frames = [], final_frames = Map.empty,
      max_bytes = 60 * 1920 * 1080 * 4 + 44100 * 2 * 4,
      tasks = [], producer = Idle, consumer = NotCalling, returned = [], usleeps = [],
      printed = []\<rparr>"

definition GetCurrentFrameNumber :: "delegate \<Rightarrow> ulong" where
  "GetCurrentFrameNumber s =
     (if final_frameCount s > 0 then final_frameCount s - 1 else 0)"

text \<open>
  The loop condition of \<^verbatim>\<open>GetFrame\<close>, \<^verbatim>\<open>requested_frame > GetCurrentFrameNumber()\<close>. The
  operands are \<^verbatim>\<open>int64_t\<close> and \<^verbatim>\<open>unsigned long\<close>; the usual arithmetic conversions turn
  the signed operand into the unsigned type, so the comparison is the unsigned one.
\<close>

definition in_future :: "int64 \<Rightarrow> delegate \<Rightarrow> bool" where
  "in_future requested_frame s = (GetCurrentFrameNumber s < requested_frame)"

text \<open>The critical section of \<^verbatim>\<open>GetFrame\<close> and its return.\<close>

definition GetFrame_critical :: "int64 \<Rightarrow> delegate \<Rightarrow> delegate" where
  "GetFrame_critical requested_frame s =
     (if cache_Exists requested_frame (final_frames s)
      then s\<lparr>final_frames := cache_Remove requested_frame (final_frames s),
             returned := returned s
                @ [(requested_frame, cache_GetFrame requested_frame (final_frames s))],
             consumer := NotCalling\<rparr>
      else s\<lparr>printed := printed s
                @ [CantFind requested_frame (GetCurrentFrameNumber s), CacheDisplay],
             returned := returned s @ [(requested_frame, None)],
             consumer := NotCalling\<rparr>)"

text \<open>
  The body of a conversion task: it builds the Frame from its private
  \<^verbatim>\<open>copy_frameCount\<close> and the dimensions of the callback's \<^verbatim>\<open>videoFrame\<close>, and adds it to
  the cache inside the critical section \<^verbatim>\<open>blackmagic_input_queue\<close>.
\<close>

definition convert_task :: "video_frame \<Rightarrow> task \<Rightarrow> Frame" where
  "convert_task videoFrame t =
     \<lparr>number = copy_frameCount t, width = vf_width videoFrame, height = vf_height videoFrame\<rparr>"

text \<open>
  The threads interleave, so the program is a step function over events; an event that
  cannot happen in a state gives \<open>None\<close>. \<open>nprocs\<close> is the value of the macro
  \<^verbatim>\<open>OPEN_MP_NUM_PROCESSORS\<close>, which the sources do not define.
  \<^item> \<open>Arrive\<close>: the capture API calls \<^verbatim>\<open>VideoInputFrameArrived(videoFrame, _)\<close>, up to the
    test \<^verbatim>\<open>number_to_process >= OPEN_MP_NUM_PROCESSORS\<close>; when the test fails the callback
    returns.
  \<^item> \<open>Dispatch\<close>: one iteration of \<^verbatim>\<open>while (!raw_video_frames.empty())\<close>: the front frame
    is dequeued, the task gets its copy of \<^verbatim>\<open>frameCount\<close>, then \<^verbatim>\<open>frameCount++\<close>.
  \<^item> \<open>RunTask i\<close>: the \<open>i\<close>-th pending task runs, in any order the runtime likes; its
    Frame must fit in the budget of the cache.
  \<^item> \<open>Publish\<close>: the loop is over and the parallel region ends, which waits for every
    task; then \<^verbatim>\<open>final_frameCount += number_to_process\<close> and the callback returns.
  \<^item> \<open>Call n\<close>, \<open>Poll\<close>, \<open>Enter\<close>: the consumer calls \<^verbatim>\<open>GetFrame(n)\<close>, evaluates the loop
    condition once (sleeping 500 microseconds when it holds), runs the critical section
    and returns.
\<close>

datatype event =
  Arrive "video_frame option" | Dispatch | RunTask nat | Publish
  | Call int64 | Poll | Enter

definition VideoInputFrameArrived :: "int \<Rightarrow> video_frame option \<Rightarrow> delegate \<Rightarrow> delegate" where
  "VideoInputFrameArrived nprocs videoFrame s =
     (case videoFrame of
        None \<Rightarrow> s
      | Some vf \<Rightarrow>
          if no_input_source vf
          then s\<lparr>printed := printed s @ [NoInputSignal (frameCount s)]\<rparr>
          else
            let q = raw_video_frames s @ [vf];
                number_to_process = int (length q)
            in if number_to_process \<ge> nprocs
               then s\<lparr>raw_video_frames := q, producer := Converting number_to_process vf\<rparr>
               else s\<lparr>raw_video_frames := q\<rparr>)"

fun step :: "int \<Rightarrow> event \<Rightarrow> delegate \<Rightarrow> delegate option" where
  "step nprocs (Arrive videoFrame) s =
     (case producer s of
        Idle \<Rightarrow> Some (VideoInputFrameArrived nprocs videoFrame s)
      | Converting n vf \<Rightarrow> None)"
| "step nprocs Dispatch s =
     (case producer s of
        Idle \<Rightarrow> None
      | Converting n vf \<Rightarrow>
          (case raw_video_frames s of
             [] \<Rightarrow> None
           | frame # rest \<Rightarrow>
               Some (s\<lparr>raw_video_frames := rest,
                       tasks := tasks s @ [\<lparr>t_frame = frame, copy_frameCount = frameCount s\<rparr>],
                       frameCount := frameCount s + 1\<rparr>)))"
| "step nprocs (RunTask i) s =
     (case producer s of
        Idle \<Rightarrow> None
      | Converting n vf \<Rightarrow>
          if i < length (tasks s)
          then (case cache_Add (max_bytes s) (convert_task vf (tasks s ! i)) (final_frames s) of
                  None \<Rightarrow> None
                | Some c \<Rightarrow>
                    Some (s\<lparr>final_frames := c,
                            tasks := take i (tasks s) @ drop (Suc i) (tasks s)\<rparr>))
          else None)"
| "step nprocs Publish s =
     (case producer s of
        Idle \<Rightarrow> None
      | Converting n vf \<Rightarrow>
          if raw_video_frames s = [] \<and> tasks s = []
          then Some (s\<lparr>final_frameCount := final_frameCount s + word_of_int n,
                       producer := Idle\<rparr>)
          else None)"
| "step nprocs (Call n) s =
     (case consumer s of
        NotCalling \<Rightarrow> Some (s\<lparr>consumer := Polling n\<rparr>)
      | _ \<Rightarrow> None)"
| "step nprocs Poll s =
     (case consumer s of
        Polling n \<Rightarrow>
          if in_future n s
          then Some (s\<lparr>usleeps := usleeps s @ [500]\<rparr>)
          else Some (s\<lparr>consumer := Leaving n\<rparr>)
      | _ \<Rightarrow> None)"
| "step nprocs Enter s =
     (case consumer s of
        Leaving n \<Rightarrow> Some (GetFrame_critical n s)
      | _ \<Rightarrow> None)"

text \<open>A schedule is a list of events; it runs when each event can happen in turn.\<close>

fun steps :: "int \<Rightarrow> event list \<Rightarrow> delegate \<Rightarrow> delegate option" where
  "steps nprocs [] s = Some s"
| "steps nprocs (e # es) s =
     (case step nprocs e s of None \<Rightarrow> None | Some s' \<Rightarrow> steps nprocs es s')"

section \<open>Playback scheduler: PlayerPrivate (src/Qt/PlayerPrivate.cpp)\<close>

text \<open>
  Modelled from the spec: the Reader is not among the sources. \<^verbatim>\<open>GetFrameSafe(position)\<close>
  returns a Frame or raises; the scheduler's \<^verbatim>\<open>catch\<close> clauses name three exception
  classes, any other exception leaves \<^verbatim>\<open>getFrame\<close> and \<^verbatim>\<open>run\<close>. \<^verbatim>\<open>info\<close> gives the two
  stream flags and the frame rate (\<^verbatim>\<open>fps.ToDouble()\<close>).
\<close>

datatype reader_exception = ReaderClosed | TooManySeeks | OutOfBoundsFrame | OtherException

record reader_base =
  has_audio :: bool
  has_video :: bool
  fps_ToDouble :: real
  GetFrameSafe :: "int \<Rightarrow> reader_exception + Frame"

text \<open>The calls the scheduler makes on the audio thread object.\<close>

datatype audio_call = AudioSeek int | AudioSetSpeed int

text \<open>
  The positions and the speed are \<^verbatim>\<open>int\<close>s of the source; they are unbounded integers
  here (signed overflow is undefined in C++). Times are \<^verbatim>\<open>double\<close>s in the source and
  exact reals here. The traces record what the scheduler does to its collaborators:
  the positions it asks the Reader for, the frames it hands to the video thread with
  \<^verbatim>\<open>render.signal()\<close>, the arguments of \<^verbatim>\<open>sleep\<close>, the calls on the audio thread, and the
  numbers it prints.
\<close>

record player =
  video_position :: int
  audio_position :: int
  speed :: int
  reader :: reader_base
  requested :: "int list"
  videoPlayback_frame :: "Frame option"
  render_signals :: "Frame option list"
  sleeps :: "int list"
  audio_calls :: "audio_call list"
  cout :: "int list"

text \<open>What one iteration of the loop reads from outside: the milliseconds between \<^verbatim>\<open>t1\<close>
  and \<^verbatim>\<open>t2\<close>, and the answer of \<^verbatim>\<open>audioPlayback->getCurrentFramePosition()\<close>.\<close>

record tick_input =
  render_time :: int
  audio_frame_position :: int

text \<open>The conversion of a \<^verbatim>\<open>double\<close> to \<^verbatim>\<open>int\<close> drops the fraction (towards zero).\<close>

definition to_int :: "real \<Rightarrow> int" where
  "to_int x = (if x < 0 then - \<lfloor>- x\<rfloor> else \<lfloor>x\<rfloor>)"

text \<open>\<^verbatim>\<open>PlayerPrivate::getFrame\<close>: the position moves before the Reader is asked; the three
  caught exceptions give the empty pointer, any other one propagates (\<open>Inl\<close>).\<close>

definition getFrame :: "player \<Rightarrow> reader_exception + (Frame option \<times> player)" where
  "getFrame s =
     (let s1 = s\<lparr>video_position := video_position s + speed s\<rparr>;
          s2 = s1\<lparr>requested := requested s1 @ [video_position s1]\<rparr>
      in case GetFrameSafe (reader s2) (video_position s2) of
           Inr f \<Rightarrow> Inr (Some f, s2)
         | Inl ReaderClosed \<Rightarrow> Inr (None, s2)
         | Inl TooManySeeks \<Rightarrow> Inr (None, s2)
         | Inl OutOfBoundsFrame \<Rightarrow> Inr (None, s2)
         | Inl OtherException \<Rightarrow> Inl OtherException)"

text \<open>
  One iteration of \<^verbatim>\<open>while (!threadShouldExit())\<close> in \<^verbatim>\<open>PlayerPrivate::run\<close>. The \<^verbatim>\<open>if\<close>
  on the two stream flags has no braces: it guards the assignment to \<^verbatim>\<open>audio_position\<close>
  only, and \<^verbatim>\<open>video_frame_diff = video_position - audio_position\<close> runs in every
  iteration.
\<close>

definition tick :: "tick_input \<Rightarrow> player \<Rightarrow> reader_exception + player" where
  "tick inp s =
     (let frame_time = 1000 / fps_ToDouble (reader s)
      in if speed s = 0
         then Inr (s\<lparr>sleeps := sleeps s @ [to_int frame_time]\<rparr>)
         else
           case getFrame s of
             Inl e \<Rightarrow> Inl e
           | Inr (frame, s1) \<Rightarrow>
               let s2 = s1\<lparr>videoPlayback_frame := frame,
                            render_signals := render_signals s1 @ [frame]\<rparr>;
                   s3 = (if has_audio (reader s2) \<and> has_video (reader s2)
                         then s2\<lparr>audio_position := audio_frame_position inp\<rparr> else s2);
                   video_frame_diff = video_position s3 - audio_position s3;
                   render_time = render_time inp;
                   sleep_time = to_int (frame_time - real_of_int render_time);
                   sleep_time2 =
                     (if video_frame_diff > 0 \<and> has_audio (reader s3) \<and> has_video (reader s3)
                      then to_int (real_of_int sleep_time
                             + real_of_int video_frame_diff * (1000 / fps_ToDouble (reader s3)))
                      else sleep_time);
                   s4 = (if sleep_time2 > 0 then s3\<lparr>sleeps := sleeps s3 @ [sleep_time2]\<rparr> else s3)
               in Inr (s4\<lparr>cout := cout s4 @ [video_frame_diff]\<rparr>))"

text \<open>The loop: one input per iteration for which \<^verbatim>\<open>threadShouldExit()\<close> was false; an
  exception that escapes \<^verbatim>\<open>getFrame\<close> ends it.\<close>

fun run :: "tick_input list \<Rightarrow> player \<Rightarrow> reader_exception + player" where
  "run [] s = Inr s"
| "run (inp # inps) s = (case tick inp s of Inl e \<Rightarrow> Inl e | Inr s' \<Rightarrow> run inps s')"

definition Seek :: "int \<Rightarrow> player \<Rightarrow> player" where
  "Seek new_position s =
     (if new_position > 0
      then let s1 = s\<lparr>video_position := new_position\<rparr>
           in s1\<lparr>audio_calls := audio_calls s1 @ [AudioSeek (video_position s1)]\<rparr>
      else s)"

definition Speed :: "int \<Rightarrow> player \<Rightarrow> player" where
  "Speed new_speed s =
     (let s1 = s\<lparr>speed := new_speed\<rparr>
      in if has_audio (reader s1)
         then s1\<lparr>audio_calls := audio_calls s1 @ [AudioSetSpeed new_speed]\<rparr> else s1)"

section \<open>Schedules of the capture producer\<close>








text \<open>A call of \<^verbatim>\<open>GetFrame(n)\<close> that no other thread interrupts and whose first test of the
  loop condition fails: the call, one test, the critical section.\<close>

definition fetch :: "int64 \<Rightarrow> event list" where
  "fetch n = [Call n, Poll, Enter]"

section \<open>Invariants of the capture producer\<close>





section \<open>Concrete inputs\<close>

text \<open>The constructor \<^verbatim>\<open>PlayerPrivate(rb)\<close> followed by \<^verbatim>\<open>Reader(r)\<close>: positions 0, speed 1.\<close>

definition new_player :: "reader_base \<Rightarrow> player" where
  "new_player r =
     \<lparr>video_position = 0, audio_position = 0, speed = 1, reader = r, requested = [],
      videoPlayback_frame = None, render_signals = [], sleeps = [], audio_calls = [],
      cout = []\<rparr>"

text \<open>A source of 25 frames per second with audio and video, whose positions from 1000 on
  are out of bounds.\<close>

definition still_reader :: reader_base where
  "still_reader =
     \<lparr>has_audio = True, has_video = True, fps_ToDouble = 25,
      GetFrameSafe = (\<lambda>p. if p < 1000 then Inr \<lparr>number = word_of_int p, width = 2, height = 1\<rparr>
                           else Inl OutOfBoundsFrame)\<rparr>"

definition at_999 :: player where
  "at_999 = (new_player still_reader)\<lparr>video_position := 999\<rparr>"

definition behind_audio :: player where
  "behind_audio = (new_player still_reader)\<lparr>video_position := 4\<rparr>"

text \<open>Two captured frames, and two schedules of a machine with two processors that
  convert them as one batch: the tasks finish in the order of arrival, or the second
  task finishes first. Both end in the state \<open>one_batch\<close>.\<close>

definition first_frame :: video_frame where
  "first_frame = \<lparr>no_input_source = False, vf_width = 2, vf_height = 1, vf_bytes = [16, 128]\<rparr>"

definition second_frame :: video_frame where
  "second_frame = \<lparr>no_input_source = False, vf_width = 4, vf_height = 3, vf_bytes = [17, 128]\<rparr>"

definition two_arrivals :: "event list" where
  "two_arrivals = [Arrive (Some first_frame), Arrive (Some second_frame)]"



definition one_batch :: delegate where
  "one_batch = DeckLinkInputDelegate
     \<lparr>frameCount := 2, final_frameCount := 2,
      final_frames := [0 \<mapsto> \<lparr>number = 0, width = 4, height = 3\<rparr>,
                       1 \<mapsto> \<lparr>number = 1, width = 4, height = 3\<rparr>]\<rparr>"


definition early_fetch :: delegate where
  "early_fetch = DeckLinkInputDelegate
     \<lparr>frameCount := 1, raw_video_frames := [second_frame],
      producer := Converting 2 second_frame,
      returned := [(0, Some \<lparr>number = 0, width = 4, height = 3\<rparr>)]\<rparr>"



section \<open>The playback scheduler\<close>

text \<open>
  C8. \<^verbatim>\<open>Seek(p)\<close> with \<open>p > 0\<close> sets the video position to \<open>p\<close> and calls
  \<^verbatim>\<open>audioPlayback->Seek\<close> with the new position, once; with \<open>p \<le> 0\<close> it changes nothing:
  neither the position nor the calls made on the audio thread.
\<close>

theorem Seek_sets_and_forwards:
  "(0 < p \<longrightarrow> Seek p s = s\<lparr>video_position := p, audio_calls := audio_calls s @ [AudioSeek p]\<rparr>)
   \<and> (p \<le> 0 \<longrightarrow> Seek p s = s)"
  by (simp add: Seek_def Let_def)

theorem Seek_sets_and_forwards_witness:
  "Seek 7 (new_player still_reader)
     = (new_player still_reader)\<lparr>video_position := 7, audio_calls := [AudioSeek 7]\<rparr>
   \<and> Seek (- 2) (new_player still_reader) = new_player still_reader"
  using Seek_sets_and_forwards [of 7 "new_player still_reader"]
        Seek_sets_and_forwards [of "- 2" "new_player still_reader"]
  by (simp add: new_player_def)

lemma tick_paused:
  "speed s = 0 \<Longrightarrow>
   tick inp s = Inr (s\<lparr>sleeps := sleeps s @ [to_int (1000 / fps_ToDouble (reader s))]\<rparr>)"
  by (simp add: tick_def)

text \<open>
  C9. With speed 0, any number of iterations of the loop only sleep: each calls
  \<^verbatim>\<open>sleep(frame_time)\<close> once (the \<^verbatim>\<open>double\<close> converted to the \<^verbatim>\<open>int\<close> milliseconds of
  \<^verbatim>\<open>sleep\<close>) and nothing else of the state changes: the video position, the positions asked
  of the Reader and the frames handed to the video thread are what they were.
\<close>

theorem paused_position_unchanged:
  "speed s = 0 \<Longrightarrow>
   run inps s
     = Inr (s\<lparr>sleeps := sleeps s
                  @ replicate (length inps) (to_int (1000 / fps_ToDouble (reader s)))\<rparr>)"
proof (induction inps arbitrary: s)
  case Nil
  then show ?case by simp
next
  case (Cons inp inps)
  let ?s1 = "s\<lparr>sleeps := sleeps s @ [to_int (1000 / fps_ToDouble (reader s))]\<rparr>"
  have "speed ?s1 = 0" using Cons.prems by simp
  from Cons.IH [OF this] show ?case
    by (simp add: tick_paused [OF Cons.prems] replicate_app_Cons_same)
qed

theorem paused_position_unchanged_witness:
  "run [\<lparr>render_time = 3, audio_frame_position = 9\<rparr>,
        \<lparr>render_time = 5, audio_frame_position = 10\<rparr>]
       ((new_player still_reader)\<lparr>speed := 0, video_position := 12\<rparr>)
   = Inr ((new_player still_reader)\<lparr>speed := 0, video_position := 12, sleeps := [40, 40]\<rparr>)"
  using paused_position_unchanged
    [of "(new_player still_reader)\<lparr>speed := 0, video_position := 12\<rparr>"
        "[\<lparr>render_time = 3, audio_frame_position = 9\<rparr>,
          \<lparr>render_time = 5, audio_frame_position = 10\<rparr>]"]
  by (simp add: new_player_def still_reader_def to_int_def numeral_2_eq_2)

lemma getFrame_caught:
  assumes "GetFrameSafe (reader s) (video_position s + speed s) = Inl e"
    and "e \<noteq> OtherException"
  shows "getFrame s = Inr (None, s\<lparr>video_position := video_position s + speed s,
            requested := requested s @ [video_position s + speed s]\<rparr>)"
  using assms by (cases e) (simp_all add: getFrame_def Let_def)

lemma tick_fields:
  assumes "tick inp s = Inr s'" and "speed s \<noteq> 0"
  shows "video_position s' = video_position s + speed s"
    and "requested s' = requested s @ [video_position s + speed s]"
    and "speed s' = speed s" and "reader s' = reader s"
  using assms
  by (auto simp: tick_def getFrame_def Let_def
           split: sum.splits reader_exception.splits if_splits prod.splits)

lemma tick_escapes:
  assumes "tick inp s = Inl x"
  shows "GetFrameSafe (reader s) (video_position s + speed s) = Inl OtherException"
  using assms
  by (auto simp: tick_def getFrame_def Let_def
           split: sum.splits reader_exception.splits if_splits prod.splits)

text \<open>
  C6 as stated fails in one part: something is handed to the video thread in that
  iteration. The source of \<open>at_999\<close> raises out-of-bounds at position 1000; the iteration
  still assigns \<^verbatim>\<open>videoPlayback->frame\<close> and signals \<^verbatim>\<open>render\<close>, with the empty pointer, where
  a paused iteration leaves the video thread alone.
\<close>

theorem render_signalled_counterexample:
  "GetFrameSafe (reader at_999) (video_position at_999 + speed at_999) = Inl OutOfBoundsFrame
   \<and> render_signals at_999 = []
   \<and> tick \<lparr>render_time = 10, audio_frame_position = 1000\<rparr> at_999
       = Inr (at_999\<lparr>video_position := 1000, audio_position := 1000, requested := [1000],
                render_signals := [None], sleeps := [30], cout := [0]\<rparr>)"
  by (simp add: tick_def getFrame_def Let_def at_999_def new_player_def still_reader_def to_int_def)

text \<open>
  C6, amended. An iteration with speed not 0 that ends normally has advanced the position
  by the speed and has asked the Reader for the new position, once. When the Reader
  raises reader-closed, too-many-seeks or out-of-bounds there, the iteration does end
  normally (the loop goes on): the render rendezvous takes place all the same, and the
  pointer it hands to the video thread is the empty one, so no frame is handed over; and
  the next iteration asks the Reader for the advanced position plus the speed (the only
  way it can fail is an exception of another class raised by that request).
\<close>

theorem reader_failure_swallowed:
  assumes "speed s \<noteq> 0"
  shows "(\<forall>s'. tick inp s = Inr s' \<longrightarrow>
            video_position s' = video_position s + speed s
            \<and> requested s' = requested s @ [video_position s + speed s])
     \<and> (\<forall>e. GetFrameSafe (reader s) (video_position s + speed s) = Inl e
              \<and> (e = ReaderClosed \<or> e = TooManySeeks \<or> e = OutOfBoundsFrame) \<longrightarrow>
            (\<exists>s'. tick inp s = Inr s'
               \<and> video_position s' = video_position s + speed s
               \<and> requested s' = requested s @ [video_position s + speed s]
               \<and> videoPlayback_frame s' = None
               \<and> render_signals s' = render_signals s @ [None]
               \<and> (case tick inp' s' of
                     Inr s'' \<Rightarrow>
                       requested s'' = requested s' @ [video_position s + speed s + speed s]
                   | Inl x \<Rightarrow>
                       GetFrameSafe (reader s) (video_position s + speed s + speed s)
                         = Inl OtherException)))"
proof -
  have first: "video_position s' = video_position s + speed s
        \<and> requested s' = requested s @ [video_position s + speed s]"
    if "tick inp s = Inr s'" for s'
    using tick_fields(1,2) [OF that assms] by simp
  have second: "\<exists>s'. tick inp s = Inr s'
               \<and> video_position s' = video_position s + speed s
               \<and> requested s' = requested s @ [video_position s + speed s]
               \<and> videoPlayback_frame s' = None
               \<and> render_signals s' = render_signals s @ [None]
               \<and> (case tick inp' s' of
                     Inr s'' \<Rightarrow>
                       requested s'' = requested s' @ [video_position s + speed s + speed s]
                   | Inl x \<Rightarrow>
                       GetFrameSafe (reader s) (video_position s + speed s + speed s)
                         = Inl OtherException)"
    if e: "GetFrameSafe (reader s) (video_position s + speed s) = Inl e"
      and c: "e = ReaderClosed \<or> e = TooManySeeks \<or> e = OutOfBoundsFrame" for e
  proof -
    from c have ne: "e \<noteq> OtherException" by auto
    let ?s1 = "s\<lparr>video_position := video_position s + speed s,
                  requested := requested s @ [video_position s + speed s]\<rparr>"
    have g: "getFrame s = Inr (None, ?s1)" by (rule getFrame_caught [OF e ne])
    obtain s' where t: "tick inp s = Inr s'"
      and v: "videoPlayback_frame s' = None"
      and r: "render_signals s' = render_signals s @ [None]"
      using assms g by (simp add: tick_def Let_def)
    note f = tick_fields [OF t assms]
    have sp: "speed s' \<noteq> 0" using f(3) assms by simp
    have nxt: "case tick inp' s' of
                   Inr s'' \<Rightarrow> requested s'' = requested s' @ [video_position s + speed s + speed s]
                 | Inl x \<Rightarrow> GetFrameSafe (reader s) (video_position s + speed s + speed s)
                             = Inl OtherException"
    proof (cases "tick inp' s'")
      case (Inl x)
      from tick_escapes [OF Inl] show ?thesis using Inl f by simp
    next
      case (Inr s'')
      from tick_fields(2) [OF Inr sp] show ?thesis using Inr f by simp
    qed
    show ?thesis using t f(1,2) v r nxt by blast
  qed
  show ?thesis using first second by blast
qed

theorem reader_failure_swallowed_witness:
  "\<exists>s'. tick \<lparr>render_time = 10, audio_frame_position = 1000\<rparr> at_999 = Inr s'
         \<and> video_position s' = 1000 \<and> requested s' = [1000] \<and> videoPlayback_frame s' = None
         \<and> render_signals s' = [None]
         \<and> (case tick \<lparr>render_time = 10, audio_frame_position = 1001\<rparr> s' of
               Inr s'' \<Rightarrow> requested s'' = [1000, 1001]
             | Inl x \<Rightarrow> False)"
proof -
  have h: "speed at_999 \<noteq> 0"
    "GetFrameSafe (reader at_999) (video_position at_999 + speed at_999) = Inl OutOfBoundsFrame"
    by (simp_all add: at_999_def new_player_def still_reader_def)
  from reader_failure_swallowed
         [OF h(1), of "\<lparr>render_time = 10, audio_frame_position = 1000\<rparr>"
            "\<lparr>render_time = 10, audio_frame_position = 1001\<rparr>"] h(2)
  show ?thesis
    by (auto simp: at_999_def new_player_def still_reader_def split: sum.splits)
qed

text \<open>
  C3. The source has audio and video at 25 frames per second (a frame interval of 40 ms),
  rendering took 10 ms, the video is at frame 5 and the audio at frame 6. The sleep the
  claim gives is \<open>(40 - 10) + (5 - 6) * 40 = - 10\<close> ms, that is none; the loop sleeps the
  uncorrected 30 ms, because the correction is guarded by \<^verbatim>\<open>video_frame_diff > 0\<close>.
\<close>

theorem behind_audio_sleep_not_shortened:
  "tick \<lparr>render_time = 10, audio_frame_position = 6\<rparr> behind_audio
   = Inr (behind_audio\<lparr>video_position := 5, audio_position := 6, requested := [5],
            videoPlayback_frame := Some \<lparr>number = 5, width = 2, height = 1\<rparr>,
            render_signals := [Some \<lparr>number = 5, width = 2, height = 1\<rparr>],
            sleeps := [30], cout := [- 1]\<rparr>)"
  by (simp add: tick_def getFrame_def Let_def behind_audio_def new_player_def
                still_reader_def to_int_def)

text \<open>The same iteration on a source without audio: the difference is computed all the
  same, against the audio position 0 that was never read, and printed as 5.\<close>

lemma diff_computed_without_audio:
  "tick \<lparr>render_time = 10, audio_frame_position = 6\<rparr>
        (behind_audio\<lparr>reader := still_reader\<lparr>has_audio := False\<rparr>\<rparr>)
   = Inr (behind_audio\<lparr>reader := still_reader\<lparr>has_audio := False\<rparr>, video_position := 5,
            requested := [5],
            videoPlayback_frame := Some \<lparr>number = 5, width = 2, height = 1\<rparr>,
            render_signals := [Some \<lparr>number = 5, width = 2, height = 1\<rparr>],
            sleeps := [30], cout := [5]\<rparr>)"
  by (simp add: tick_def getFrame_def Let_def behind_audio_def new_player_def
                still_reader_def to_int_def)

text \<open>One frame further the video is ahead of the audio, and here the correction is
  applied as the claim has it: \<open>(40 - 10) + (7 - 6) * 40 = 70\<close> ms.\<close>

lemma ahead_of_audio_sleep_lengthened:
  "tick \<lparr>render_time = 10, audio_frame_position = 6\<rparr> (behind_audio\<lparr>video_position := 6\<rparr>)
   = Inr (behind_audio\<lparr>video_position := 7, audio_position := 6, requested := [7],
            videoPlayback_frame := Some \<lparr>number = 7, width = 2, height = 1\<rparr>,
            render_signals := [Some \<lparr>number = 7, width = 2, height = 1\<rparr>],
            sleeps := [70], cout := [1]\<rparr>)"
  by (simp add: tick_def getFrame_def Let_def behind_audio_def new_player_def
                still_reader_def to_int_def)

section \<open>The capture producer\<close>

text \<open>
  C7. \<^verbatim>\<open>GetCurrentFrameNumber()\<close> is the published count minus one (as numbers, without
  wrap-around) when the count is positive, and 0 when nothing has been published.
\<close>

theorem GetCurrentFrameNumber_value:
  "(0 < final_frameCount s \<longrightarrow> uint (GetCurrentFrameNumber s) = uint (final_frameCount s) - 1)
   \<and> (final_frameCount s = 0 \<longrightarrow> GetCurrentFrameNumber s = 0)"
  by (auto simp: GetCurrentFrameNumber_def uint_sub_if_size word_less_def word_le_def
           split: if_splits)

theorem GetCurrentFrameNumber_value_witness:
  "uint (GetCurrentFrameNumber (DeckLinkInputDelegate\<lparr>final_frameCount := 4\<rparr>)) = 3
   \<and> GetCurrentFrameNumber DeckLinkInputDelegate = 0"
  using GetCurrentFrameNumber_value [of "DeckLinkInputDelegate\<lparr>final_frameCount := 4\<rparr>"]
        GetCurrentFrameNumber_value [of "DeckLinkInputDelegate"]
  by (simp add: DeckLinkInputDelegate_def)

subsection \<open>Invariants of every schedule\<close>




































subsection \<open>The byte budget\<close>











text \<open>A captured frame of 20000 by 10000 pixels does not fit in the budget: its conversion
  task has no result.\<close>

lemma over_budget_has_no_result:
  "steps 1 [Arrive (Some \<lparr>no_input_source = False, vf_width = 20000, vf_height = 10000,
                            vf_bytes = []\<rparr>), Dispatch, RunTask 0] DeckLinkInputDelegate = None"
  by (simp add: DeckLinkInputDelegate_def VideoInputFrameArrived_def Let_def cache_Add_def
        convert_task_def cache_GetBytes_def Frame_GetBytes_def)

subsection \<open>Publication in whole batches\<close>







subsection \<open>Numbering, fetching and the first batch\<close>





















text \<open>
  C10 as stated fails. On a machine with two processors, after two arrivals the first
  task can run before the batch is published: \<^verbatim>\<open>final_frameCount\<close> is still 0, and
  \<^verbatim>\<open>GetFrame(0)\<close> does not take the cache-miss branch: it returns frame 0, not the empty
  pointer, and prints nothing.
\<close>

theorem GetFrame_before_first_batch_counterexample:
  "steps 2 (two_arrivals @ [Dispatch, RunTask 0] @ fetch 0) DeckLinkInputDelegate = Some early_fetch
   \<and> final_frameCount early_fetch = 0
   \<and> returned early_fetch = [(0, Some \<lparr>number = 0, width = 4, height = 3\<rparr>)]
   \<and> printed early_fetch = []"
  by (simp add: two_arrivals_def fetch_def first_frame_def second_frame_def early_fetch_def
        DeckLinkInputDelegate_def VideoInputFrameArrived_def Let_def cache_Add_def convert_task_def
        cache_GetBytes_def Frame_GetBytes_def
        GetFrame_critical_def cache_Exists_def cache_Remove_def cache_GetFrame_def
        in_future_def GetCurrentFrameNumber_def)

text \<open>
  C10, amended. Before anything is published \<^verbatim>\<open>GetFrame(0)\<close> does not block: its first test
  of the loop condition fails. It then returns the empty pointer through the cache-miss
  branch when no Frame is stored under 0 yet, and returns and removes frame 0 when its
  task has already stored it.
\<close>

theorem GetFrame_0_before_first_batch:
  assumes "final_frameCount s = 0" and "consumer s = NotCalling"
  shows "steps nprocs [Call 0, Poll] s = Some (s\<lparr>consumer := Leaving 0\<rparr>)
     \<and> (final_frames s 0 = None \<longrightarrow>
          steps nprocs (fetch 0) s
            = Some (s\<lparr>printed := printed s @ [CantFind 0 0, CacheDisplay],
                      returned := returned s @ [(0, None)], consumer := NotCalling\<rparr>))
     \<and> (\<forall>f. final_frames s 0 = Some f \<longrightarrow>
          steps nprocs (fetch 0) s
            = Some (s\<lparr>final_frames := (final_frames s)(0 := None),
                      returned := returned s @ [(0, Some f)], consumer := NotCalling\<rparr>))"
  using assms
  by (auto simp: fetch_def in_future_def GetCurrentFrameNumber_def GetFrame_critical_def
        cache_Exists_def cache_Remove_def cache_GetFrame_def)

theorem GetFrame_0_before_first_batch_witness:
  "steps 2 [Call 0, Poll] DeckLinkInputDelegate = Some (DeckLinkInputDelegate\<lparr>consumer := Leaving 0\<rparr>)
   \<and> steps 2 (fetch 0) DeckLinkInputDelegate
       = Some (DeckLinkInputDelegate\<lparr>printed := [CantFind 0 0, CacheDisplay], returned := [(0, None)]\<rparr>)"
proof -
  have h: "final_frameCount DeckLinkInputDelegate = 0" "consumer DeckLinkInputDelegate = NotCalling"
    "final_frames DeckLinkInputDelegate 0 = None"
    by (simp_all add: DeckLinkInputDelegate_def)
  from GetFrame_0_before_first_batch [OF h(1,2), of 2] h(3)
  show ?thesis by (simp add: DeckLinkInputDelegate_def)
qed

text \<open>
  The negative requests. \<^verbatim>\<open>requested_frame\<close> is an \<^verbatim>\<open>int64_t\<close> and is compared with an
  \<^verbatim>\<open>unsigned long\<close>, so a negative request is compared as a number of at least \<open>2^63\<close>:
  before anything is published every request other than 0 finds the loop condition true
  and sleeps, and \<^verbatim>\<open>GetFrame(-1)\<close> keeps polling as long as fewer than \<open>2^64\<close> frames have
  been published.
\<close>

lemma GetFrame_nonzero_polls:
  assumes "final_frameCount s = 0" and "consumer s = NotCalling" and "n \<noteq> 0"
  shows "steps nprocs [Call n, Poll] s
            = Some (s\<lparr>consumer := Polling n, usleeps := usleeps s @ [500]\<rparr>)"
  using assms
  by (simp add: in_future_def GetCurrentFrameNumber_def word_greater_zero_iff)

lemma GetFrame_minus_one_polls:
  "sint (- 1 :: int64) = - 1
   \<and> steps 2 [Call (- 1), Poll] one_batch
       = Some (one_batch\<lparr>consumer := Polling (- 1), usleeps := [500]\<rparr>)"
  by (simp add: one_batch_def DeckLinkInputDelegate_def in_future_def GetCurrentFrameNumber_def
        less_le)

end
